theory Spec2Isabelle
  imports Complex_Main "HOL-Library.Sublist"
begin

section \<open>Data model\<close>

text \<open>
  A candidate resource is the dictionary every scraping agent builds, with the keys
  \<open>type\<close>, \<open>title\<close>, \<open>link\<close>, \<open>raw_text\<close> and \<open>source\<close>. The evaluation agent writes
  a sixth key, \<open>score\<close>, into the same dictionary; a dictionary without that key has
  \<open>score = None\<close>. Python's floats are idealised as real numbers, and strings are
  ASCII texts.
\<close>

record resource =
  rtype :: string
  title :: string
  link :: string
  raw_text :: string
  source :: string
  score :: "real option"

text \<open>
  The exceptions of class \<open>Exception\<close> that the modelled code raises or receives;
  \<open>AgentError\<close> stands for those of the network and parsing libraries.
\<close>

datatype exn =
    ZeroDivisionError
  | KeyError
  | TypeError
  | HTTPException nat
  | AgentError string

text \<open>
  What a task can end with instead of a value: an instance of \<open>Exception\<close>, or
  \<open>asyncio.CancelledError\<close>, which is a \<open>BaseException\<close> and not an
  \<open>Exception\<close>.
\<close>

datatype raised =
    Exception exn
  | CancelledError

text \<open>\<open>isinstance(result, Exception)\<close> on what a task ended with.\<close>

fun isinstance_Exception :: "raised \<Rightarrow> bool" where
  "isinstance_Exception (Exception e) = True"
| "isinstance_Exception CancelledError = False"

section \<open>String operations\<close>

definition upper_letters :: string where
  "upper_letters = ''ABCDEFGHIJKLMNOPQRSTUVWXYZ''"

definition lower_letters :: string where
  "lower_letters = ''abcdefghijklmnopqrstuvwxyz''"

text \<open>\<open>str.lower()\<close> on ASCII text.\<close>

definition lower_char :: "char \<Rightarrow> char" where
  "lower_char c = (case map_of (zip upper_letters lower_letters) c of Some d \<Rightarrow> d | None \<Rightarrow> c)"

definition lower :: "string \<Rightarrow> string" where
  "lower s = map lower_char s"

text \<open>The regular expression class \<open>\w\<close> on ASCII text: letters, digits and the underscore.\<close>

definition is_word_char :: "char \<Rightarrow> bool" where
  "is_word_char c = (c \<in> set (upper_letters @ lower_letters @ ''0123456789_''))"

text \<open>\<open>k in s\<close> on strings: \<open>k\<close> occurs in \<open>s\<close> as a contiguous piece.\<close>

fun str_in :: "string \<Rightarrow> string \<Rightarrow> bool" where
  "str_in k [] = (k = [])"
| "str_in k (c # cs) = (prefix k (c # cs) \<or> str_in k cs)"

text \<open>
  \<open>re.findall(r'\b\w+\b', s)\<close>: the maximal runs of word characters of \<open>s\<close>, from left
  to right. The first argument of \<open>words_from\<close> is the run being read.
\<close>

fun words_from :: "string \<Rightarrow> string \<Rightarrow> string list" where
  "words_from cur [] = (if cur = [] then [] else [cur])"
| "words_from cur (c # cs) =
     (if is_word_char c then words_from (cur @ [c]) cs
      else (if cur = [] then [] else [cur]) @ words_from [] cs)"

definition findall_words :: "string \<Rightarrow> string list" where
  "findall_words s = words_from [] s"

section \<open>The evaluation agent\<close>

definition min_score_threshold :: real where
  "min_score_threshold = 0.4"

definition max_results_per_category :: nat where
  "max_results_per_category = 5"

definition source_credibility :: "(string \<times> real) list" where
  "source_credibility =
    [(''wikipedia'', 1.0), (''mdn'', 0.95), (''oracle'', 0.9), (''tensorflow'', 0.9),
     (''pytorch'', 0.9), (''scikit-learn'', 0.9), (''pandas'', 0.9), (''numpy'', 0.9),
     (''spring'', 0.9), (''django'', 0.9), (''fastapi'', 0.9), (''react'', 0.9),
     (''node.js'', 0.9), (''tutorialspoint'', 0.8), (''geeksforgeeks'', 0.8),
     (''w3schools'', 0.8), (''freecodecamp'', 0.8), (''edx'', 0.85), (''coursera'', 0.85),
     (''youtube'', 0.7), (''vimeo'', 0.7), (''hashnode'', 0.75), (''dev.to'', 0.75),
     (''medium'', 0.7), (''personal_blog'', 0.6), (''blogspot'', 0.6), (''wordpress'', 0.6),
     (''tumblr'', 0.5)]"

definition level_keywords :: "(string \<times> string list) list" where
  "level_keywords =
    [(''beginner'', [''beginner'', ''basic'', ''intro'', ''introduction'', ''getting started'',
                     ''learn'', ''tutorial'', ''guide'', ''simple'', ''easy'']),
     (''intermediate'', [''intermediate'', ''advanced'', ''deep dive'', ''comprehensive'',
                         ''detailed'', ''expert'', ''professional'', ''production'']),
     (''advanced'', [''advanced'', ''expert'', ''master'', ''professional'', ''production'',
                     ''enterprise'', ''optimization'', ''performance''])]"

subsection \<open>Relevance\<close>

text \<open>
  \<open>fuzz.partial_ratio\<close> belongs to the rapidfuzz library, not to this program: it is the
  parameter \<open>pr\<close> of the model, a similarity between 0 and 100.
\<close>

type_synonym ratio = "string \<Rightarrow> string \<Rightarrow> real"

definition ratio_ok :: "ratio \<Rightarrow> bool" where
  "ratio_ok pr = (\<forall>a b. 0 \<le> pr a b \<and> pr a b \<le> 100)"

text \<open>What one topic keyword adds to \<open>title_score\<close>, and to \<open>content_score\<close>.\<close>

definition title_points :: "string \<Rightarrow> string \<Rightarrow> real" where
  "title_points t k =
     (if str_in k t then
        (if k = t \<or> str_in ('' '' @ k @ '' '') ('' '' @ t @ '' '') then 1.0 else 0.7)
      else 0)"

definition content_points :: "string \<Rightarrow> string \<Rightarrow> real" where
  "content_points raw k = (if str_in k raw then 0.5 else 0)"

text \<open>
  The body of the \<open>try\<close> block of \<open>_calculate_relevance_score\<close>. Both divisions are by
  \<open>len(topic_keywords)\<close>, and raise \<open>ZeroDivisionError\<close> when the topic has no keyword.
\<close>

definition relevance_body :: "ratio \<Rightarrow> resource \<Rightarrow> string \<Rightarrow> exn + real" where
  "relevance_body pr r topic =
     (let t = lower (title r);
          raw = lower (raw_text r);
          topic_lower = lower topic;
          topic_keywords = findall_words topic_lower;
          title_score = sum_list (map (title_points t) topic_keywords);
          content_score = sum_list (map (content_points raw) topic_keywords);
          title_fuzzy = pr topic_lower t / 100;
          content_fuzzy = pr topic_lower raw / 100;
          n = real (length topic_keywords)
      in if n = 0 then Inl ZeroDivisionError
         else Inr (min ((title_score / n) * 0.6 + (content_score / n) * 0.2
                        + title_fuzzy * 0.1 + content_fuzzy * 0.1) 1.0))"

text \<open>The \<open>except\<close> clause: any error gives the score 0.0.\<close>

definition calculate_relevance_score :: "ratio \<Rightarrow> resource \<Rightarrow> string \<Rightarrow> real" where
  "calculate_relevance_score pr r topic =
     (case relevance_body pr r topic of Inl e \<Rightarrow> 0.0 | Inr v \<Rightarrow> v)"

subsection \<open>Content depth\<close>

definition any_in :: "string list \<Rightarrow> string \<Rightarrow> bool" where
  "any_in ws t = list_ex (\<lambda>w. str_in w t) ws"

definition level_bonus :: "string \<Rightarrow> string \<Rightarrow> real" where
  "level_bonus level_lower t =
     (if level_lower = ''beginner'' then
        (if any_in [''tutorial'', ''guide'', ''learn'', ''intro''] t then 0.2 else 0)
      else if level_lower = ''intermediate'' then
        (if any_in [''advanced'', ''deep'', ''comprehensive''] t then 0.2 else 0)
      else if level_lower = ''advanced'' then
        (if any_in [''expert'', ''master'', ''professional''] t then 0.2 else 0)
      else 0)"

definition level_penalty :: "string \<Rightarrow> string \<Rightarrow> real" where
  "level_penalty level_lower t =
     (if level_lower = ''beginner'' then
        (if any_in [''expert'', ''advanced'', ''master''] t then 0.3 else 0)
      else if level_lower = ''advanced'' then
        (if any_in [''beginner'', ''intro'', ''basic''] t then 0.3 else 0)
      else 0)"

definition calculate_content_depth_score :: "resource \<Rightarrow> string \<Rightarrow> real" where
  "calculate_content_depth_score r level =
     (let t = lower (title r);
          raw = lower (raw_text r);
          level_lower = lower level;
          kws = (case map_of level_keywords level_lower of Some ks \<Rightarrow> ks | None \<Rightarrow> []);
          total_checks = length kws;
          level_indicators = length (filter (\<lambda>k. str_in k t \<or> str_in k raw) kws);
          base_score = (if total_checks > 0 then real level_indicators / real total_checks
                        else 0.5);
          base_score = base_score + level_bonus level_lower t;
          base_score = base_score - level_penalty level_lower t
      in max 0.0 (min base_score 1.0))"

subsection \<open>Credibility\<close>

definition calculate_credibility_score :: "resource \<Rightarrow> real" where
  "calculate_credibility_score r =
     (let src = lower (source r);
          lnk = lower (link r);
          source_score = (case map_of source_credibility src of Some v \<Rightarrow> v | None \<Rightarrow> 0.5)
      in if str_in ''wikipedia.org'' lnk then max source_score 1.0
         else if str_in ''github.com'' lnk then max source_score 0.8
         else if str_in ''stackoverflow.com'' lnk then max source_score 0.8
         else if str_in ''docs.'' lnk then max source_score 0.9
         else if str_in ''tutorial'' lnk then max source_score 0.7
         else source_score)"

subsection \<open>Final score\<close>

definition final_score :: "ratio \<Rightarrow> resource \<Rightarrow> string \<Rightarrow> string \<Rightarrow> real" where
  "final_score pr r topic level =
     calculate_relevance_score pr r topic * 0.4
     + calculate_content_depth_score r level * 0.3
     + calculate_credibility_score r * 0.3"

text \<open>\<open>round(x, 2)\<close>: to the nearest multiple of 0.01, a tie going to the even one.\<close>

definition round2 :: "real \<Rightarrow> real" where
  "round2 x =
     (let n = \<lfloor>x * 100\<rfloor>; f = x * 100 - of_int n
      in of_int (if f < 1/2 then n else if 1/2 < f then n + 1
                 else if even n then n else n + 1) / 100)"

subsection \<open>Sorting by score\<close>

text \<open>
  \<open>xs.sort(key=lambda x: x['score'], reverse=True)\<close>. The keys are read first, and a
  dictionary without the key \<open>score\<close> raises \<open>KeyError\<close>; the sort is stable, also with
  \<open>reverse=True\<close>.
\<close>

fun score_keys :: "resource list \<Rightarrow> exn + (real \<times> resource) list" where
  "score_keys [] = Inr []"
| "score_keys (r # rs) =
     (case score r of
        None \<Rightarrow> Inl KeyError
      | Some s \<Rightarrow> (case score_keys rs of Inl e \<Rightarrow> Inl e | Inr ks \<Rightarrow> Inr ((s, r) # ks)))"

definition sort_by_score :: "resource list \<Rightarrow> exn + resource list" where
  "sort_by_score rs =
     (case score_keys rs of
        Inl e \<Rightarrow> Inl e
      | Inr ks \<Rightarrow> Inr (map snd (sort_key (\<lambda>p. - fst p) ks)))"

subsection \<open>The cap per category\<close>

text \<open>
  \<open>by_type\<close> is a dictionary from a type to the list of its resources; its keys are
  iterated in the order in which they were first inserted, so it is an association list.
\<close>

fun by_type_add :: "(string \<times> resource list) list \<Rightarrow> resource \<Rightarrow> (string \<times> resource list) list" where
  "by_type_add [] r = [(rtype r, [r])]"
| "by_type_add ((t, rs) # g) r =
     (if t = rtype r then (t, rs @ [r]) # g else (t, rs) # by_type_add g r)"

definition group_by_type :: "resource list \<Rightarrow> (string \<times> resource list) list" where
  "group_by_type rs = foldl by_type_add [] rs"

text \<open>The second loop: each category is sorted and its first five entries are kept.\<close>

fun top_of_each :: "(string \<times> resource list) list \<Rightarrow> exn + resource list" where
  "top_of_each [] = Inr []"
| "top_of_each ((t, rs) # g) =
     (case sort_by_score rs of
        Inl e \<Rightarrow> Inl e
      | Inr sorted_rs \<Rightarrow>
          (case top_of_each g of
             Inl e \<Rightarrow> Inl e
           | Inr rest \<Rightarrow> Inr (take max_results_per_category sorted_rs @ rest)))"

definition filter_by_category_body :: "resource list \<Rightarrow> exn + resource list" where
  "filter_by_category_body rs =
     (case top_of_each (group_by_type rs) of
        Inl e \<Rightarrow> Inl e
      | Inr filtered_resources \<Rightarrow> sort_by_score filtered_resources)"

text \<open>The \<open>except\<close> clause returns the list it was given.\<close>

definition filter_by_category :: "resource list \<Rightarrow> resource list" where
  "filter_by_category rs =
     (case filter_by_category_body rs of Inl e \<Rightarrow> rs | Inr out \<Rightarrow> out)"

subsection \<open>evaluate\<close>

text \<open>
  The loop of \<open>evaluate\<close> writes the rounded score into each dictionary it is given and
  appends the dictionary to \<open>evaluated_resources\<close> when the score before rounding reaches
  the threshold. \<open>evaluate_loop\<close> returns the dictionaries of the input list as the loop
  leaves them, and \<open>evaluated_resources\<close>. The three scoring functions catch their own
  errors, so no iteration of the loop fails on a dictionary with the keys of a resource.
\<close>

fun evaluate_loop :: "ratio \<Rightarrow> string \<Rightarrow> string \<Rightarrow> resource list \<Rightarrow> resource list \<times> resource list" where
  "evaluate_loop pr topic level [] = ([], [])"
| "evaluate_loop pr topic level (r # rs) =
     (let fs = final_score pr r topic level;
          r' = r\<lparr>score := Some (round2 fs)\<rparr>;
          (after, evaluated_resources) = evaluate_loop pr topic level rs
      in (r' # after,
          if fs \<ge> min_score_threshold then r' # evaluated_resources
          else evaluated_resources))"

text \<open>
  \<open>evaluate\<close> returns the input dictionaries as it leaves them, and the list it returns
  to its caller; an error after the loop gives the empty list.
\<close>

definition evaluate :: "ratio \<Rightarrow> resource list \<Rightarrow> string \<Rightarrow> string \<Rightarrow> resource list \<times> resource list" where
  "evaluate pr resources topic level =
     (let (after, evaluated_resources) = evaluate_loop pr topic level resources
      in (after,
          case sort_by_score evaluated_resources of
            Inl e \<Rightarrow> []
          | Inr sorted_resources \<Rightarrow> filter_by_category sorted_resources))"

section \<open>The scraping agents\<close>

text \<open>
  Every agent ends \<open>scrape\<close> with the same loop over what it found: a resource is kept
  when its link is not among the links seen so far.
\<close>

fun unique_from :: "string list \<Rightarrow> resource list \<Rightarrow> resource list" where
  "unique_from seen_urls [] = []"
| "unique_from seen_urls (r # rs) =
     (if link r \<notin> set seen_urls then r # unique_from (link r # seen_urls) rs
      else unique_from seen_urls rs)"

definition unique_resources :: "resource list \<Rightarrow> resource list" where
  "unique_resources rs = unique_from [] rs"

text \<open>
  An agent is a function of the topic and the level whose task ends with an exception or
  with a list of resources; \<open>asyncio.gather(..., return_exceptions=True)\<close> hands both
  to the endpoint as values.
\<close>

type_synonym agent = "string \<Rightarrow> string \<Rightarrow> raised + resource list"

text \<open>
  The searches of an agent are network calls: the first argument of \<open>scrape\<close> is how
  they ended, with an exception of class \<open>Exception\<close> or with the resources found,
  in the order found. The clause \<open>except Exception\<close> of \<open>scrape\<close> turns the
  exception into the empty list.
\<close>

definition scrape :: "exn + resource list \<Rightarrow> agent" where
  "scrape searches topic level =
     (case searches of Inl e \<Rightarrow> Inr [] | Inr found \<Rightarrow> Inr (unique_resources found))"

text \<open>
  An agent whose task ends with \<open>e\<close>; a task that is cancelled ends with
  \<open>CancelledError\<close>, which \<open>except Exception\<close> does not catch.
\<close>

definition raising :: "raised \<Rightarrow> agent" where
  "raising e topic level = Inl e"

section \<open>The endpoint\<close>

record scrape_request =
  req_topic :: string
  req_level :: string

record api_resource =
  res_type :: string
  res_title :: string
  res_link :: string
  res_score :: real

record scrape_response =
  content :: string
  resources :: "api_resource list"

text \<open>
  What one run of the endpoint did: how many agent tasks it started, which agents it
  logged as failed, the list \<open>all_resources\<close> as the body left it, which is the list
  passed to the evaluation agent when the loop over the results has ended, and the
  response or the exception the run ended with.
\<close>

record run =
  started :: nat
  failed_agents :: "nat list"
  all_resources :: "resource list"
  outcome :: "exn + scrape_response"

definition valid_levels :: "string list" where
  "valid_levels = [''beginner'', ''intermediate'', ''advanced'']"

text \<open>
  The loop over \<open>enumerate(results)\<close>: the resources collected, the agents logged, and
  the exception that ended the loop, if any. A result that is an instance of
  \<open>Exception\<close> is logged and skipped. Any other result goes to
  \<open>all_resources.extend\<close>, which raises \<open>TypeError\<close> when the result is not a
  list but a \<open>CancelledError\<close>.
\<close>

fun combine :: "nat \<Rightarrow> (raised + resource list) list \<Rightarrow> resource list \<times> nat list \<times> exn option" where
  "combine i [] = ([], [], None)"
| "combine i (Inl e # results) =
     (if isinstance_Exception e then
        (let (rs, fl, err) = combine (Suc i) results in (rs, i # fl, err))
      else ([], [], Some TypeError))"
| "combine i (Inr result # results) =
     (let (rs, fl, err) = combine (Suc i) results in (result @ rs, fl, err))"

text \<open>\<open>Resource(type=resource["type"], ..., score=resource["score"])\<close> for each resource.\<close>

fun format_resources :: "resource list \<Rightarrow> exn + api_resource list" where
  "format_resources [] = Inr []"
| "format_resources (r # rs) =
     (case score r of
        None \<Rightarrow> Inl KeyError
      | Some s \<Rightarrow>
          (case format_resources rs of
             Inl e \<Rightarrow> Inl e
           | Inr out \<Rightarrow> Inr (\<lparr>res_type = rtype r, res_title = title r, res_link = link r,
                                res_score = s\<rparr> # out)))"

text \<open>The body of the \<open>try\<close> block of \<open>scrape_resources\<close>.\<close>

definition scrape_body :: "ratio \<Rightarrow> agent list \<Rightarrow> scrape_request \<Rightarrow> run" where
  "scrape_body pr agents request =
     (if lower (req_level request) \<notin> set valid_levels then
        \<lparr>started = 0, failed_agents = [], all_resources = [],
         outcome = Inl (HTTPException 400)\<rparr>
      else
        (let results = map (\<lambda>a. a (req_topic request) (req_level request)) agents;
             (collected, fl, err) = combine 0 results
         in case err of
              Some e \<Rightarrow>
                \<lparr>started = length agents, failed_agents = fl, all_resources = collected,
                 outcome = Inl e\<rparr>
            | None \<Rightarrow>
                (let evaluated_resources =
                       snd (evaluate pr collected (req_topic request) (req_level request))
                 in \<lparr>started = length agents, failed_agents = fl, all_resources = collected,
                     outcome =
                       (case format_resources evaluated_resources of
                          Inl e \<Rightarrow> Inl e
                        | Inr out \<Rightarrow>
                            Inr \<lparr>content = ''Learning resources for '' @ req_topic request
                                             @ '' at '' @ req_level request @ '' level'',
                                 resources = out\<rparr>)\<rparr>)))"

text \<open>
  \<open>except Exception\<close> around the whole body: every exception that the body raises
  is of class \<open>Exception\<close>, and each of them, the \<open>HTTPException\<close> raised for the
  level among them, is answered with status 500.
\<close>

definition scrape_resources :: "ratio \<Rightarrow> agent list \<Rightarrow> scrape_request \<Rightarrow> run" where
  "scrape_resources pr agents request =
     (let r = scrape_body pr agents request
      in r\<lparr>outcome := (case outcome r of
                          Inl e \<Rightarrow> Inl (HTTPException 500)
                        | Inr resp \<Rightarrow> Inr resp)\<rparr>)"

section \<open>Notions used to state the properties\<close>

text \<open>The dictionary of \<open>r\<close> after the loop of \<open>evaluate\<close> has written its score.\<close>

definition with_score :: "ratio \<Rightarrow> string \<Rightarrow> string \<Rightarrow> resource \<Rightarrow> resource" where
  "with_score pr topic level r = r\<lparr>score := Some (round2 (final_score pr r topic level))\<rparr>"

text \<open>The candidate reaches the threshold with its score before rounding.\<close>

definition passes :: "ratio \<Rightarrow> string \<Rightarrow> string \<Rightarrow> resource \<Rightarrow> bool" where
  "passes pr topic level r = (final_score pr r topic level \<ge> min_score_threshold)"

text \<open>The stored score of a scored resource.\<close>

definition skey :: "resource \<Rightarrow> real" where
  "skey r = (case score r of Some s \<Rightarrow> s | None \<Rightarrow> 0)"

text \<open>A list in descending order of the stored score.\<close>

definition descending :: "resource list \<Rightarrow> bool" where
  "descending rs = sorted (map (\<lambda>r. - skey r) rs)"

text \<open>The stable sort of scored resources by descending score.\<close>

definition sort_desc :: "resource list \<Rightarrow> resource list" where
  "sort_desc rs = sort_key (\<lambda>r. - skey r) rs"

definition api_of :: "resource \<Rightarrow> api_resource" where
  "api_of r = \<lparr>res_type = rtype r, res_title = title r, res_link = link r, res_score = skey r\<rparr>"

text \<open>What the results of the agents contribute to the merged list.\<close>

fun successes :: "('e + resource list) \<Rightarrow> resource list" where
  "successes (Inl e) = []"
| "successes (Inr rs) = rs"

text \<open>
  A function that meets the contract of \<open>fuzz.partial_ratio\<close>, to run the model on
  concrete inputs.
\<close>

definition exact_ratio :: ratio where
  "exact_ratio a b = (if a = b then 100 else 0)"

text \<open>The credibility the table gives to the source of a resource, 0.5 when it has none.\<close>

definition table_score :: "resource \<Rightarrow> real" where
  "table_score r = (case map_of source_credibility (lower (source r)) of Some v \<Rightarrow> v | None \<Rightarrow> 0.5)"

text \<open>Every dictionary of the list has the key \<open>score\<close>.\<close>

definition all_scored :: "resource list \<Rightarrow> bool" where
  "all_scored rs = list_all (\<lambda>r. score r \<noteq> None) rs"

text \<open>The keys of \<open>by_type\<close> are distinct, and each resource is filed under its own type.\<close>

definition groups_ok :: "(string \<times> resource list) list \<Rightarrow> bool" where
  "groups_ok g = (distinct (map fst g) \<and> (\<forall>(t, rs) \<in> set g. \<forall>r \<in> set rs. rtype r = t))"

text \<open>The list filed under a type, empty when the type is not a key.\<close>

definition group_of :: "(string \<times> resource list) list \<Rightarrow> string \<Rightarrow> resource list" where
  "group_of g t = (case map_of g t of None \<Rightarrow> [] | Some rs \<Rightarrow> rs)"

text \<open>The resources filed in \<open>by_type\<close>.\<close>

definition members :: "(string \<times> resource list) list \<Rightarrow> resource set" where
  "members g = set (concat (map snd g))"

text \<open>What the second loop of \<open>_filter_by_category\<close> collects when every resource is scored.\<close>

definition tops :: "(string \<times> resource list) list \<Rightarrow> resource list" where
  "tops g = concat (map (\<lambda>(t, rs). take max_results_per_category (sort_desc rs)) g)"

text \<open>\<open>evaluated_resources\<close> at the end of the loop of \<open>evaluate\<close>.\<close>

definition survivors :: "ratio \<Rightarrow> string \<Rightarrow> string \<Rightarrow> resource list \<Rightarrow> resource list" where
  "survivors pr topic level rs = map (with_score pr topic level) (filter (passes pr topic level) rs)"

text \<open>The response of the endpoint with the resources \<open>out\<close>.\<close>

definition response_for :: "scrape_request \<Rightarrow> api_resource list \<Rightarrow> scrape_response" where
  "response_for request out =
     \<lparr>content = ''Learning resources for '' @ req_topic request @ '' at ''
                  @ req_level request @ '' level'',
      resources = out\<rparr>"

text \<open>What \<open>asyncio.gather\<close> returns: the result of each agent, in the order of registration.\<close>

definition gathered :: "agent list \<Rightarrow> scrape_request \<Rightarrow> (raised + resource list) list" where
  "gathered agents request = map (\<lambda>a. a (req_topic request) (req_level request)) agents"

text \<open>Every result is a list or an instance of \<open>Exception\<close>.\<close>

definition all_handled :: "(raised + resource list) list \<Rightarrow> bool" where
  "all_handled results =
     list_all (\<lambda>x. case x of Inl e \<Rightarrow> isinstance_Exception e | Inr rs \<Rightarrow> True) results"

section \<open>Example inputs\<close>

definition python_article :: resource where
  "python_article =
     \<lparr>rtype = ''article'', title = ''Python Programming for Beginners'',
      link = ''https://en.wikipedia.org/wiki/Python_(programming_language)'',
      raw_text = ''Learn Python from scratch'', source = ''wikipedia'', score = None\<rparr>"

text \<open>A documentation page on a code hosting domain.\<close>

definition docs_on_github :: resource where
  "docs_on_github =
     \<lparr>rtype = ''docs'', title = ''Get started'',
      link = ''https://docs.github.com/en/get-started'',
      raw_text = ''Learn to use the platform'', source = ''github'', score = None\<rparr>"

text \<open>A page of official documentation whose link also contains \<open>tutorial\<close>.\<close>

definition python_docs :: resource where
  "python_docs =
     \<lparr>rtype = ''docs'', title = ''The Python Tutorial'',
      link = ''https://docs.python.org/3/tutorial/'',
      raw_text = ''An informal introduction'', source = ''python'', score = None\<rparr>"

text \<open>Three candidates that score alike, an article, a video and a second article.\<close>

definition first_article :: resource where
  "first_article =
     \<lparr>rtype = ''article'', title = ''Easy Python tutorial'', link = ''https://medium.com/@a/easy'',
      raw_text = ''a simple guide to learn python'', source = ''medium'', score = None\<rparr>"

definition a_video :: resource where
  "a_video =
     \<lparr>rtype = ''video'', title = ''Easy Python tutorial'', link = ''https://youtube.com/watch?v=1'',
      raw_text = ''a simple guide to learn python'', source = ''youtube'', score = None\<rparr>"

definition second_article :: resource where
  "second_article =
     \<lparr>rtype = ''article'', title = ''Easy Python tutorial'', link = ''https://medium.com/@b/easy'',
      raw_text = ''a simple guide to learn python'', source = ''medium'', score = None\<rparr>"

text \<open>The link of \<open>python_article\<close> as the documentation agent returns it.\<close>

definition python_article_as_docs :: resource where
  "python_article_as_docs = python_article\<lparr>rtype := ''docs''\<rparr>"

text \<open>A candidate whose final score is 0.3975 for a topic without keywords.\<close>

definition borderline_video :: resource where
  "borderline_video =
     \<lparr>rtype = ''video'', title = ''x'', link = ''https://example.com/v'',
      raw_text = ''intermediate detailed expert professional production'',
      source = ''youtube'', score = None\<rparr>"

text \<open>Requests.\<close>

definition beginner_python :: scrape_request where
  "beginner_python = \<lparr>req_topic = ''Python Programming'', req_level = ''Beginner''\<rparr>"

definition empty_topic :: scrape_request where
  "empty_topic = \<lparr>req_topic = [], req_level = ''beginner''\<rparr>"

definition expert_python :: scrape_request where
  "expert_python = \<lparr>req_topic = ''Python Programming'', req_level = ''expert''\<rparr>"

text \<open>Five registered agents: the first two find the same link.\<close>

definition both_find_python :: "agent list" where
  "both_find_python =
     [scrape (Inr [python_article, python_article]), scrape (Inr [python_article_as_docs]),
      scrape (Inr []), scrape (Inr []), scrape (Inr [])]"

text \<open>The first and the third agent end with an exception.\<close>

definition two_agents_raise :: "agent list" where
  "two_agents_raise =
     [raising (Exception (AgentError ''timeout'')), scrape (Inr [python_article]),
      raising (Exception (AgentError ''connection reset'')), scrape (Inr []), scrape (Inr [])]"

text \<open>Every agent ends with an exception.\<close>

definition all_agents_raise :: "agent list" where
  "all_agents_raise = replicate 5 (raising (Exception (AgentError ''timeout'')))"

text \<open>The task of the first agent is cancelled.\<close>

definition first_agent_cancelled :: "agent list" where
  "first_agent_cancelled =
     [raising CancelledError, scrape (Inr [python_article]), scrape (Inr []), scrape (Inr []),
      scrape (Inr [])]"

text \<open>No agent finds anything.\<close>

definition nothing_found :: "agent list" where
  "nothing_found = replicate 5 (scrape (Inr []))"

section \<open>Scores\<close>

lemma title_points_range: "0 \<le> title_points t k \<and> title_points t k \<le> 1"
  by (simp add: title_points_def)

lemma content_points_range: "0 \<le> content_points raw k"
  by (simp add: content_points_def)

lemma sum_list_nonneg_map: "(\<And>x. 0 \<le> f x) \<Longrightarrow> (0::real) \<le> sum_list (map f xs)"
  by (induction xs) auto

lemma relevance_body_range:
  assumes "ratio_ok pr" and "relevance_body pr r topic = Inr v"
  shows "0 \<le> v \<and> v \<le> 1"
proof -
  define ks where "ks = findall_words (lower topic)"
  define ts where "ts = sum_list (map (title_points (lower (title r))) ks)"
  define cs where "cs = sum_list (map (content_points (lower (raw_text r))) ks)"
  define tf where "tf = pr (lower topic) (lower (title r))"
  define cf where "cf = pr (lower topic) (lower (raw_text r))"
  have ts: "0 \<le> ts" unfolding ts_def by (rule sum_list_nonneg_map) (simp add: title_points_range)
  have cs: "0 \<le> cs" unfolding cs_def by (rule sum_list_nonneg_map) (simp add: content_points_range)
  have tf: "0 \<le> tf" and cf: "0 \<le> cf" using assms(1) by (simp_all add: ratio_ok_def tf_def cf_def)
  from assms(2) have n: "ks \<noteq> []"
    and v: "v = min (ts / real (length ks) * 0.6 + cs / real (length ks) * 0.2 + tf / 100 * 0.1 + cf / 100 * 0.1) 1"
    by (auto simp: relevance_body_def Let_def ks_def ts_def cs_def tf_def cf_def split: if_splits)
  have "0 \<le> ts / real (length ks) * 0.6" using ts by simp
  moreover have "0 \<le> cs / real (length ks) * 0.2" using cs by simp
  moreover have "0 \<le> tf / 100 * 0.1" using tf by simp
  moreover have "0 \<le> cf / 100 * 0.1" using cf by simp
  ultimately show ?thesis unfolding v by simp
qed

lemma relevance_range:
  assumes "ratio_ok pr"
  shows "0 \<le> calculate_relevance_score pr r topic \<and> calculate_relevance_score pr r topic \<le> 1"
  using relevance_body_range [OF assms, of r topic]
  by (cases "relevance_body pr r topic") (simp_all add: calculate_relevance_score_def)

lemma depth_range:
  "0 \<le> calculate_content_depth_score r level \<and> calculate_content_depth_score r level \<le> 1"
  by (simp add: calculate_content_depth_score_def Let_def)

lemma table_range: "(k, v) \<in> set source_credibility \<Longrightarrow> 0 \<le> v \<and> v \<le> 1"
  by (auto simp: source_credibility_def)

lemma table_score_range: "0 \<le> table_score r \<and> table_score r \<le> 1"
proof (cases "map_of source_credibility (lower (source r))")
  case None
  then show ?thesis by (simp add: table_score_def)
next
  case (Some v)
  then have "(lower (source r), v) \<in> set source_credibility" by (rule map_of_SomeD)
  with Some show ?thesis using table_range by (simp add: table_score_def)
qed

lemma credibility_range:
  "0 \<le> calculate_credibility_score r \<and> calculate_credibility_score r \<le> 1"
proof -
  have e: "calculate_credibility_score r =
     (if str_in ''wikipedia.org'' (lower (link r)) then max (table_score r) 1.0
         else if str_in ''github.com'' (lower (link r)) then max (table_score r) 0.8
         else if str_in ''stackoverflow.com'' (lower (link r)) then max (table_score r) 0.8
         else if str_in ''docs.'' (lower (link r)) then max (table_score r) 0.9
         else if str_in ''tutorial'' (lower (link r)) then max (table_score r) 0.7
         else table_score r)"
    by (simp add: calculate_credibility_score_def Let_def table_score_def)
  show ?thesis unfolding e using table_score_range [of r] by (simp add: le_max_iff_disj)
qed

lemma final_score_range:
  assumes "ratio_ok pr"
  shows "0 \<le> final_score pr r topic level \<and> final_score pr r topic level \<le> 1"
proof -
  note a = relevance_range [OF assms, of r topic]
  note b = depth_range [of r level]
  note c = credibility_range [of r]
  show ?thesis unfolding final_score_def using a b c by simp
qed

lemma round2_mono_lower: "of_int k / 100 \<le> x \<Longrightarrow> of_int k / 100 \<le> round2 x"
proof -
  assume "of_int k / 100 \<le> x"
  then have "of_int k \<le> x * 100" by simp
  then have "k \<le> \<lfloor>x * 100\<rfloor>" by (simp add: le_floor_iff)
  then have "(of_int k :: real) \<le> of_int \<lfloor>x * 100\<rfloor>" by simp
  then show ?thesis by (simp add: round2_def Let_def)
qed

lemma round2_mono_upper: "x \<le> of_int k / 100 \<Longrightarrow> round2 x \<le> of_int k / 100"
proof -
  assume a: "x \<le> of_int k / 100"
  then have b: "x * 100 \<le> of_int k" by simp
  show ?thesis
  proof (cases "x * 100 = of_int k")
    case True
    then show ?thesis by (simp add: round2_def Let_def)
  next
    case False
    with b have "x * 100 < of_int k" by simp
    then have "\<lfloor>x * 100\<rfloor> < k" by (simp add: floor_less_iff)
    then have "\<lfloor>x * 100\<rfloor> + 1 \<le> k" by simp
    then have "(of_int (\<lfloor>x * 100\<rfloor> + 1) :: real) \<le> of_int k" by (simp only: of_int_le_iff)
    moreover have "(of_int \<lfloor>x * 100\<rfloor> :: real) \<le> of_int (\<lfloor>x * 100\<rfloor> + 1)" by simp
    ultimately show ?thesis by (simp add: round2_def Let_def)
  qed
qed

lemma round2_range: "0 \<le> x \<Longrightarrow> x \<le> 1 \<Longrightarrow> 0 \<le> round2 x \<and> round2 x \<le> 1"
  using round2_mono_lower [of 0 x] round2_mono_upper [of x 100] by simp

lemma round2_threshold: "min_score_threshold \<le> x \<Longrightarrow> min_score_threshold \<le> round2 x"
  using round2_mono_lower [of 40 x] by (simp add: min_score_threshold_def)


section \<open>Sorting, grouping and the result of evaluate\<close>

lemma all_scored_simps [simp]:
  "all_scored []" "all_scored (r # rs) = (score r \<noteq> None \<and> all_scored rs)"
  "all_scored (xs @ ys) = (all_scored xs \<and> all_scored ys)"
  by (simp_all add: all_scored_def)

lemma all_scored_subset: "all_scored ys \<Longrightarrow> set xs \<subseteq> set ys \<Longrightarrow> all_scored xs"
  by (auto simp: all_scored_def list_all_iff)

lemma evaluate_loop_fst: "fst (evaluate_loop pr topic level rs) = map (with_score pr topic level) rs"
  by (induction rs) (auto simp: Let_def with_score_def split: prod.splits)

lemma evaluate_loop_snd:
  "snd (evaluate_loop pr topic level rs) = map (with_score pr topic level) (filter (passes pr topic level) rs)"
  by (induction rs) (auto simp: Let_def with_score_def passes_def split: prod.splits)

lemma all_scored_map_with_score: "all_scored (map (with_score pr topic level) rs)"
  by (induction rs) (simp_all add: with_score_def)

lemma score_keys_scored: "all_scored rs \<Longrightarrow> score_keys rs = Inr (map (\<lambda>r. (skey r, r)) rs)"
  by (induction rs) (auto simp: skey_def)

lemma insort_key_map:
  "insort_key f (g x) (map g ys) = map g (insort_key (\<lambda>y. f (g y)) x ys)"
  by (induction ys) simp_all

lemma sort_key_map: "sort_key f (map g xs) = map g (sort_key (\<lambda>y. f (g y)) xs)"
  by (induction xs) (simp_all add: insort_key_map)

lemma sort_by_score_scored:
  assumes "all_scored rs"
  shows "sort_by_score rs = Inr (sort_desc rs)"
proof -
  have "map snd (sort_key (\<lambda>p. - fst p) (map (\<lambda>r. (skey r, r)) rs)) = sort_desc rs"
    by (simp add: sort_key_map sort_desc_def comp_def)
  then show ?thesis by (simp add: sort_by_score_def score_keys_scored [OF assms])
qed

lemma set_sort_desc [simp]: "set (sort_desc rs) = set rs"
  by (simp add: sort_desc_def)

lemma all_scored_sort_desc [simp]: "all_scored (sort_desc rs) = all_scored rs"
  by (simp add: all_scored_def list_all_iff)

lemma descending_sort_desc: "descending (sort_desc rs)"
  by (simp add: descending_def sort_desc_def)

lemma sort_desc_id: "descending rs \<Longrightarrow> sort_desc rs = rs"
  by (simp add: descending_def sort_desc_def sort_key_id_if_sorted)

lemma filter_sort_desc: "filter P (sort_desc rs) = sort_desc (filter P rs)"
  by (simp add: sort_desc_def filter_sort)

lemma descending_take: "descending rs \<Longrightarrow> descending (take n rs)"
  by (simp add: descending_def take_map [symmetric] sorted_wrt_take)

lemma by_type_add_keys: "fst ` set (by_type_add g r) = insert (rtype r) (fst ` set g)"
  by (induction g r rule: by_type_add.induct) auto

lemma by_type_add_ok: "groups_ok g \<Longrightarrow> groups_ok (by_type_add g r)"
proof (induction g r rule: by_type_add.induct)
  case (1 r)
  then show ?case by (simp add: groups_ok_def)
next
  case (2 t rs g r)
  show ?case
  proof (cases "t = rtype r")
    case True
    with "2.prems" show ?thesis by (auto simp: groups_ok_def)
  next
    case False
    from "2.prems" have "groups_ok g" by (auto simp: groups_ok_def)
    with False "2.IH" have ih: "groups_ok (by_type_add g r)" by simp
    have "t \<notin> fst ` set (by_type_add g r)"
      using False "2.prems" by (auto simp: by_type_add_keys groups_ok_def)
    with False ih "2.prems" show ?thesis by (auto simp: groups_ok_def)
  qed
qed

lemma foldl_by_type_add_ok: "groups_ok g \<Longrightarrow> groups_ok (foldl by_type_add g rs)"
  by (induction rs arbitrary: g) (simp_all add: by_type_add_ok)

lemma group_by_type_ok: "groups_ok (group_by_type rs)"
proof -
  have "groups_ok []" by (simp add: groups_ok_def)
  then show ?thesis unfolding group_by_type_def by (rule foldl_by_type_add_ok)
qed

lemma group_of_simps [simp]:
  "group_of [] t = []"
  "group_of ((k, rs) # g) t = (if k = t then rs else group_of g t)"
  by (simp_all add: group_of_def)

lemma group_of_by_type_add:
  "group_of (by_type_add g r) t = group_of g t @ (if rtype r = t then [r] else [])"
  by (induction g r rule: by_type_add.induct) auto

lemma group_of_foldl:
  "group_of (foldl by_type_add g rs) t = group_of g t @ filter (\<lambda>r. rtype r = t) rs"
  by (induction rs arbitrary: g) (simp_all add: group_of_by_type_add)

lemma group_of_group_by_type: "group_of (group_by_type rs) t = filter (\<lambda>r. rtype r = t) rs"
  by (simp add: group_by_type_def group_of_foldl)

lemma members_by_type_add: "members (by_type_add g r) = insert r (members g)"
  by (induction g r rule: by_type_add.induct) (auto simp: members_def)

lemma members_foldl: "members (foldl by_type_add g rs) = members g \<union> set rs"
  by (induction rs arbitrary: g) (simp_all add: members_by_type_add)

lemma members_group_by_type: "members (group_by_type rs) = set rs"
  by (simp add: group_by_type_def members_foldl) (simp add: members_def)

lemma top_of_each_scored:
  "all_scored (concat (map snd g)) \<Longrightarrow> top_of_each g = Inr (tops g)"
  by (induction g) (auto simp: tops_def sort_by_score_scored)

lemma set_tops: "set (tops g) \<subseteq> members g"
  by (induction g) (auto simp: tops_def members_def dest: in_set_takeD)

lemma filter_tops_none:
  "groups_ok g \<Longrightarrow> t \<notin> fst ` set g \<Longrightarrow> filter (\<lambda>r. rtype r = t) (tops g) = []"
  by (induction g) (auto simp: tops_def groups_ok_def filter_empty_conv dest!: in_set_takeD)

lemma filter_tops:
  "groups_ok g \<Longrightarrow>
   filter (\<lambda>r. rtype r = t) (tops g) = take max_results_per_category (sort_desc (group_of g t))"
proof (induction g)
  case Nil
  then show ?case by (simp add: tops_def sort_desc_def)
next
  case (Cons p g)
  obtain k rs where p: "p = (k, rs)" by (cases p)
  from Cons.prems have ok: "groups_ok g" and k: "k \<notin> fst ` set g"
    and ty: "\<forall>r \<in> set rs. rtype r = k"
    by (auto simp: groups_ok_def p)
  have split: "tops ((k, rs) # g) = take max_results_per_category (sort_desc rs) @ tops g"
    by (simp add: tops_def)
  show ?case
  proof (cases "k = t")
    case True
    have "filter (\<lambda>r. rtype r = t) (take max_results_per_category (sort_desc rs))
          = take max_results_per_category (sort_desc rs)"
      using ty True by (auto simp: filter_id_conv dest!: in_set_takeD)
    moreover have "filter (\<lambda>r. rtype r = t) (tops g) = []"
      using filter_tops_none [OF ok] k True by simp
    ultimately show ?thesis unfolding p split using True by simp
  next
    case False
    have "filter (\<lambda>r. rtype r = t) (take max_results_per_category (sort_desc rs)) = []"
      using ty False by (auto simp: filter_empty_conv dest!: in_set_takeD)
    then show ?thesis unfolding p split using Cons.IH [OF ok] False by simp
  qed
qed

lemma filter_by_category_scored:
  assumes "all_scored rs"
  shows "filter_by_category rs = sort_desc (tops (group_by_type rs))"
proof -
  have "set (concat (map snd (group_by_type rs))) \<subseteq> set rs"
    using members_group_by_type [of rs] by (simp only: members_def)
  with assms have a: "all_scored (concat (map snd (group_by_type rs)))"
    by (rule all_scored_subset)
  have "set (tops (group_by_type rs)) \<subseteq> set (concat (map snd (group_by_type rs)))"
    using set_tops [of "group_by_type rs"] by (simp only: members_def)
  with a have b: "all_scored (tops (group_by_type rs))"
    by (rule all_scored_subset)
  show ?thesis
    by (simp add: filter_by_category_def filter_by_category_body_def
        top_of_each_scored [OF a] sort_by_score_scored [OF b])
qed

lemma evaluate_fst: "fst (evaluate pr rs topic level) = map (with_score pr topic level) rs"
  by (simp add: evaluate_def split: prod.splits) (metis evaluate_loop_fst fst_conv)

lemma evaluate_snd:
  "snd (evaluate pr rs topic level)
   = sort_desc (tops (group_by_type (sort_desc (survivors pr topic level rs))))"
proof -
  have s: "all_scored (survivors pr topic level rs)"
    by (simp add: survivors_def all_scored_map_with_score)
  obtain a e where l: "evaluate_loop pr topic level rs = (a, e)" by (cases "evaluate_loop pr topic level rs")
  then have e: "e = survivors pr topic level rs"
    using evaluate_loop_snd [of pr topic level rs] by (simp add: survivors_def)
  show ?thesis
    by (simp add: evaluate_def l e sort_by_score_scored [OF s] filter_by_category_scored s)
qed

lemma evaluate_category:
  "filter (\<lambda>r. rtype r = t) (snd (evaluate pr rs topic level))
   = take max_results_per_category
       (sort_desc (filter (\<lambda>r. rtype r = t) (survivors pr topic level rs)))"
proof -
  let ?S = "survivors pr topic level rs"
  let ?X = "sort_desc (filter (\<lambda>r. rtype r = t) ?S)"
  have "filter (\<lambda>r. rtype r = t) (snd (evaluate pr rs topic level))
        = sort_desc (filter (\<lambda>r. rtype r = t) (tops (group_by_type (sort_desc ?S))))"
    by (simp add: evaluate_snd filter_sort_desc)
  also have "\<dots> = sort_desc (take max_results_per_category (sort_desc ?X))"
    by (simp add: filter_tops [OF group_by_type_ok] group_of_group_by_type filter_sort_desc)
  also have "\<dots> = take max_results_per_category ?X"
    by (simp add: sort_desc_id descending_sort_desc descending_take)
  finally show ?thesis .
qed

section \<open>Further facts about the scores and the result of evaluate\<close>

lemma credibility_chain:
  "calculate_credibility_score r =
     (if str_in ''wikipedia.org'' (lower (link r)) then max (table_score r) 1.0
         else if str_in ''github.com'' (lower (link r)) then max (table_score r) 0.8
         else if str_in ''stackoverflow.com'' (lower (link r)) then max (table_score r) 0.8
         else if str_in ''docs.'' (lower (link r)) then max (table_score r) 0.9
         else if str_in ''tutorial'' (lower (link r)) then max (table_score r) 0.7
         else table_score r)"
  by (simp add: calculate_credibility_score_def Let_def table_score_def)

lemma lower_char_not_word: "\<not> is_word_char c \<Longrightarrow> lower_char c = c"
proof -
  assume "\<not> is_word_char c"
  then have "c \<notin> set upper_letters" by (simp add: is_word_char_def)
  moreover have "length upper_letters = length lower_letters"
    by (simp add: upper_letters_def lower_letters_def)
  ultimately have "map_of (zip upper_letters lower_letters) c = None"
    by (simp add: map_of_zip_is_None)
  then show ?thesis by (simp add: lower_char_def)
qed

lemma lower_no_words: "\<not> list_ex is_word_char s \<Longrightarrow> \<not> list_ex is_word_char (lower s)"
  by (induction s) (auto simp: lower_def lower_char_not_word)

lemma words_from_none: "\<not> list_ex is_word_char s \<Longrightarrow> words_from [] s = []"
  by (induction s) auto

lemma no_keywords: "\<not> list_ex is_word_char topic \<Longrightarrow> findall_words (lower topic) = []"
  by (simp add: findall_words_def words_from_none lower_no_words)

lemma evaluate_loop_survivors:
  "snd (evaluate_loop pr topic level rs) = survivors pr topic level rs"
  by (simp add: evaluate_loop_snd survivors_def)

lemma evaluate_snd_subset:
  "set (snd (evaluate pr rs topic level)) \<subseteq> set (survivors pr topic level rs)"
proof -
  have "set (tops (group_by_type (sort_desc (survivors pr topic level rs))))
        \<subseteq> members (group_by_type (sort_desc (survivors pr topic level rs)))"
    by (rule set_tops)
  then show ?thesis by (simp add: evaluate_snd members_group_by_type)
qed

lemma skey_with_score: "skey (with_score pr topic level r) = round2 (final_score pr r topic level)"
  by (simp add: skey_def with_score_def)

lemma rtype_with_score: "rtype (with_score pr topic level r) = rtype r"
  by (simp add: with_score_def)

lemma filter_type_survivors:
  "filter (\<lambda>r. rtype r = t) (survivors pr topic level rs)
   = map (with_score pr topic level) (filter (\<lambda>c. rtype c = t \<and> passes pr topic level c) rs)"
  by (simp add: survivors_def filter_map comp_def rtype_with_score conj_commute)

lemma scored_key: "score r \<noteq> None \<Longrightarrow> (score r = Some s) = (- skey r = - s)"
  by (auto simp: skey_def)

lemma filter_score_sort_desc:
  assumes "all_scored xs"
  shows "filter (\<lambda>r. score r = Some s) (sort_desc xs) = filter (\<lambda>r. score r = Some s) xs"
proof -
  have k: "\<And>r. r \<in> set xs \<Longrightarrow> (score r = Some s) = (- skey r = - s)"
    using assms by (intro scored_key) (simp add: all_scored_def list_all_iff)
  have "filter (\<lambda>r. score r = Some s) (sort_desc xs) = filter (\<lambda>r. - skey r = - s) (sort_desc xs)"
    by (rule filter_cong) (simp_all add: k)
  also have "\<dots> = filter (\<lambda>r. - skey r = - s) xs"
    unfolding sort_desc_def by (rule sort_key_stable)
  also have "\<dots> = filter (\<lambda>r. score r = Some s) xs"
    by (rule filter_cong) (simp_all add: k)
  finally show ?thesis .
qed

lemma all_scored_survivors: "all_scored (survivors pr topic level rs)"
  by (simp add: survivors_def all_scored_map_with_score)

lemma descending_evaluate: "descending (snd (evaluate pr rs topic level))"
  by (simp add: evaluate_snd descending_sort_desc)

lemma descending_nth:
  assumes "descending xs" "i < j" "j < length xs"
  shows "skey (xs ! j) \<le> skey (xs ! i)"
proof -
  from assms(1) have "sorted (map (\<lambda>r. - skey r) xs)" by (simp add: descending_def)
  then have "map (\<lambda>r. - skey r) xs ! i \<le> map (\<lambda>r. - skey r) xs ! j"
    using assms(2,3) by (simp add: sorted_iff_nth_mono)
  then show ?thesis using assms(2,3) by simp
qed

section \<open>Facts about the agents and the endpoint\<close>

lemma all_handled_simps [simp]:
  "all_handled []"
  "all_handled (Inl e # results) = (isinstance_Exception e \<and> all_handled results)"
  "all_handled (Inr rs # results) = all_handled results"
  by (simp_all add: all_handled_def)

lemma combine_handled:
  "all_handled results \<Longrightarrow>
   combine i results
   = (concat (map successes results),
      map fst (filter (\<lambda>p. isl (snd p)) (enumerate i results)),
      None)"
  by (induction i results rule: combine.induct) simp_all

lemma combine_not_handled:
  "\<not> all_handled results \<Longrightarrow> snd (snd (combine i results)) = Some TypeError"
  by (induction i results rule: combine.induct) (simp_all add: split_beta)

lemma all_handled_scrape: "all_handled (gathered (map scrape searches) request)"
  by (induction searches) (simp_all add: gathered_def scrape_def split: sum.splits)

lemma unique_from_links:
  "link ` set (unique_from seen rs) = link ` set rs - set seen"
  by (induction rs arbitrary: seen) auto

lemma unique_from_distinct: "distinct (map link (unique_from seen rs))"
proof (induction rs arbitrary: seen)
  case Nil
  then show ?case by simp
next
  case (Cons r rs)
  have "link r \<notin> link ` set (unique_from (link r # seen) rs)"
    by (simp add: unique_from_links)
  with Cons show ?case by simp
qed

lemma unique_from_find:
  "find (\<lambda>r. link r = l) (unique_from seen rs)
   = (if l \<in> set seen then None else find (\<lambda>r. link r = l) rs)"
  by (induction rs arbitrary: seen) auto

lemma unique_from_subseq: "subseq (unique_from seen rs) rs"
  by (induction rs arbitrary: seen) auto

lemma count_distinct_links:
  "distinct (map link us) \<Longrightarrow>
   length (filter (\<lambda>r. link r = l) us) = (if l \<in> link ` set us then 1 else 0)"
  by (induction us) auto

lemma count_unique_resources:
  "length (filter (\<lambda>r. link r = l) (unique_resources found))
   = (if l \<in> link ` set found then 1 else 0)"
  using count_distinct_links [OF unique_from_distinct, of l "[]" found]
  by (simp add: unique_resources_def unique_from_links)

lemma count_concat_unique:
  "length (filter (\<lambda>r. link r = l) (concat (map (\<lambda>s. unique_resources (successes s)) searches)))
   = length (filter (\<lambda>s. l \<in> link ` set (successes s)) searches)"
  by (induction searches) (simp_all add: count_unique_resources)

lemma successes_scrape: "successes (scrape s topic level) = unique_resources (successes s)"
  by (cases s) (simp_all add: scrape_def unique_resources_def)

lemma format_resources_scored: "all_scored rs \<Longrightarrow> format_resources rs = Inr (map api_of rs)"
  by (induction rs) (auto simp: api_of_def skey_def)

lemma all_scored_evaluate: "all_scored (snd (evaluate pr rs topic level))"
  using all_scored_survivors evaluate_snd_subset by (rule all_scored_subset)

lemma evaluate_nothing: "snd (evaluate pr [] topic level) = []"
  by (simp add: evaluate_snd survivors_def sort_desc_def group_by_type_def tops_def)

lemma concat_failures: "list_all isl results \<Longrightarrow> concat (map successes results) = []"
  by (induction results) (auto simp: isl_def)

lemma scrape_body_valid:
  assumes "lower (req_level request) \<in> set valid_levels"
    and "all_handled (gathered agents request)"
  shows "scrape_body pr agents request =
     \<lparr>started = length agents,
      failed_agents = map fst (filter (\<lambda>p. isl (snd p)) (enumerate 0 (gathered agents request))),
      all_resources = concat (map successes (gathered agents request)),
      outcome = Inr (response_for request (map api_of (snd (evaluate pr
                   (concat (map successes (gathered agents request)))
                   (req_topic request) (req_level request)))))\<rparr>"
proof -
  let ?c = "concat (map successes (gathered agents request))"
  have cf: "combine 0 (map (\<lambda>a. a (req_topic request) (req_level request)) agents)
        = (?c, map fst (filter (\<lambda>p. isl (snd p)) (enumerate 0 (gathered agents request))), None)"
    using combine_handled [OF assms(2), of 0] by (simp only: gathered_def)
  have "format_resources (snd (evaluate pr ?c (req_topic request) (req_level request)))
        = Inr (map api_of (snd (evaluate pr ?c (req_topic request) (req_level request))))"
    by (rule format_resources_scored) (rule all_scored_evaluate)
  then show ?thesis
    using assms(1) by (simp add: scrape_body_def Let_def response_for_def cf)
qed

lemma scrape_body_not_handled:
  assumes "lower (req_level request) \<in> set valid_levels"
    and "\<not> all_handled (gathered agents request)"
  shows "started (scrape_body pr agents request) = length agents
       \<and> outcome (scrape_body pr agents request) = Inl TypeError"
proof -
  obtain c fl err where cf:
    "combine 0 (map (\<lambda>a. a (req_topic request) (req_level request)) agents) = (c, fl, err)"
    by (cases "combine 0 (map (\<lambda>a. a (req_topic request) (req_level request)) agents)")
  with combine_not_handled [OF assms(2), of 0] have "err = Some TypeError"
    by (simp add: gathered_def)
  with cf assms(1) show ?thesis by (simp add: scrape_body_def Let_def)
qed

lemma scrape_resources_not_handled:
  assumes "lower (req_level request) \<in> set valid_levels"
    and "\<not> all_handled (gathered agents request)"
  shows "started (scrape_resources pr agents request) = length agents
       \<and> outcome (scrape_resources pr agents request) = Inl (HTTPException 500)"
  using scrape_body_not_handled [OF assms, of pr] by (simp add: scrape_resources_def Let_def)

lemma scrape_resources_valid:
  assumes "lower (req_level request) \<in> set valid_levels"
    and "all_handled (gathered agents request)"
  shows "scrape_resources pr agents request =
     \<lparr>started = length agents,
      failed_agents = map fst (filter (\<lambda>p. isl (snd p)) (enumerate 0 (gathered agents request))),
      all_resources = concat (map successes (gathered agents request)),
      outcome = Inr (response_for request (map api_of (snd (evaluate pr
                   (concat (map successes (gathered agents request)))
                   (req_topic request) (req_level request)))))\<rparr>"
  by (simp add: scrape_resources_def scrape_body_valid [OF assms])

lemma scrape_resources_invalid:
  assumes "lower (req_level request) \<notin> set valid_levels"
  shows "scrape_resources pr agents request =
     \<lparr>started = 0, failed_agents = [], all_resources = [], outcome = Inl (HTTPException 500)\<rparr>"
  using assms by (simp add: scrape_resources_def scrape_body_def)

section \<open>Properties of the evaluation agent\<close>

text \<open>
  C6: with a similarity ratio between 0 and 100, the relevance, content depth and
  credibility scores of a candidate and its final score lie in the closed interval from 0
  to 1; the depth score does so after its bonus of 0.2 and its penalty of 0.3, being
  clamped; and the rounded final score that \<open>evaluate\<close> stores on each resource lies
  in the same interval.
\<close>

theorem scores_in_unit_interval:
  assumes "ratio_ok pr"
  shows "(0 \<le> calculate_relevance_score pr r topic \<and> calculate_relevance_score pr r topic \<le> 1)
       \<and> (0 \<le> calculate_content_depth_score r level \<and> calculate_content_depth_score r level \<le> 1)
       \<and> (0 \<le> calculate_credibility_score r \<and> calculate_credibility_score r \<le> 1)
       \<and> (0 \<le> final_score pr r topic level \<and> final_score pr r topic level \<le> 1)
       \<and> (0 \<le> round2 (final_score pr r topic level) \<and> round2 (final_score pr r topic level) \<le> 1)
       \<and> (\<forall>r' \<in> set (fst (evaluate pr rs topic level)). \<exists>s. score r' = Some s \<and> 0 \<le> s \<and> s \<le> 1)"
proof (intro conjI ballI)
  have f: "0 \<le> final_score pr c topic level \<and> final_score pr c topic level \<le> 1" for c
    using final_score_range [OF assms] .
  show "0 \<le> calculate_relevance_score pr r topic" "calculate_relevance_score pr r topic \<le> 1"
    using relevance_range [OF assms, of r topic] by simp_all
  show "0 \<le> calculate_content_depth_score r level" "calculate_content_depth_score r level \<le> 1"
    using depth_range [of r level] by simp_all
  show "0 \<le> calculate_credibility_score r" "calculate_credibility_score r \<le> 1"
    using credibility_range [of r] by simp_all
  show "0 \<le> final_score pr r topic level" "final_score pr r topic level \<le> 1"
    using f [of r] by simp_all
  show "0 \<le> round2 (final_score pr r topic level)" "round2 (final_score pr r topic level) \<le> 1"
    using round2_range [of "final_score pr r topic level"] f [of r] by simp_all
  fix r' assume "r' \<in> set (fst (evaluate pr rs topic level))"
  then obtain c where "r' = with_score pr topic level c"
    by (auto simp: evaluate_fst)
  then have "score r' = Some (round2 (final_score pr c topic level))"
    by (simp add: with_score_def)
  then show "\<exists>s. score r' = Some s \<and> 0 \<le> s \<and> s \<le> 1"
    using round2_range [of "final_score pr c topic level"] f [of c] by simp
qed

theorem scores_in_unit_interval_witness:
  "ratio_ok exact_ratio
   \<and> python_article \<lparr>score := Some 0.62\<rparr>
       \<in> set (fst (evaluate exact_ratio [python_article] ''Python Programming'' ''beginner''))
   \<and> 0 \<le> calculate_content_depth_score python_article ''beginner''
   \<and> calculate_content_depth_score python_article ''beginner'' \<le> 1
   \<and> (\<exists>s. score (python_article \<lparr>score := Some 0.62\<rparr>) = Some s \<and> 0 \<le> s \<and> s \<le> 1)"
proof -
  have h: "ratio_ok exact_ratio"
    by (simp add: ratio_ok_def exact_ratio_def)
  have m: "python_article \<lparr>score := Some 0.62\<rparr>
       \<in> set (fst (evaluate exact_ratio [python_article] ''Python Programming'' ''beginner''))"
    by code_simp
  note t = scores_in_unit_interval
    [OF h, of python_article "''Python Programming''" "''beginner''" "[python_article]"]
  from t have d: "0 \<le> calculate_content_depth_score python_article ''beginner''"
    "calculate_content_depth_score python_article ''beginner'' \<le> 1"
    by blast+
  from t have "\<forall>r' \<in> set (fst (evaluate exact_ratio [python_article] ''Python Programming'' ''beginner'')).
         \<exists>s. score r' = Some s \<and> 0 \<le> s \<and> s \<le> 1"
    by blast
  with m have "\<exists>s. score (python_article \<lparr>score := Some 0.62\<rparr>) = Some s \<and> 0 \<le> s \<and> s \<le> 1"
    by blast
  with h m d show ?thesis by (intro conjI)
qed

text \<open>
  C8, as the code has it: the link patterns never lower the score of the table. The
  patterns are tried in the order \<open>wikipedia.org\<close>, \<open>github.com\<close>,
  \<open>stackoverflow.com\<close>, \<open>docs.\<close>, \<open>tutorial\<close>, and only the first one found
  raises the score. So a link with \<open>wikipedia.org\<close> gives at least 1.0, a link with
  \<open>github.com\<close> or \<open>stackoverflow.com\<close> at least 0.8 and a link with \<open>tutorial\<close>
  at least 0.7, whatever else the link contains; a link with \<open>docs.\<close> gives at least
  0.9 when it contains \<open>wikipedia.org\<close> or neither \<open>github.com\<close> nor
  \<open>stackoverflow.com\<close>.
\<close>

theorem credibility_floors:
  "table_score r \<le> calculate_credibility_score r
   \<and> (str_in ''wikipedia.org'' (lower (link r)) \<longrightarrow> 1.0 \<le> calculate_credibility_score r)
   \<and> (str_in ''github.com'' (lower (link r)) \<or> str_in ''stackoverflow.com'' (lower (link r))
        \<longrightarrow> 0.8 \<le> calculate_credibility_score r)
   \<and> (str_in ''tutorial'' (lower (link r)) \<longrightarrow> 0.7 \<le> calculate_credibility_score r)
   \<and> (str_in ''docs.'' (lower (link r))
        \<and> (str_in ''wikipedia.org'' (lower (link r))
            \<or> (\<not> str_in ''github.com'' (lower (link r))
                \<and> \<not> str_in ''stackoverflow.com'' (lower (link r))))
        \<longrightarrow> 0.9 \<le> calculate_credibility_score r)"
  unfolding credibility_chain by (auto simp: max_def)

theorem credibility_floors_witness:
  "str_in ''wikipedia.org'' (lower (link python_article))
   \<and> 1.0 \<le> calculate_credibility_score python_article
   \<and> str_in ''github.com'' (lower (link docs_on_github))
   \<and> 0.8 \<le> calculate_credibility_score docs_on_github
   \<and> str_in ''docs.'' (lower (link python_docs))
   \<and> \<not> str_in ''github.com'' (lower (link python_docs))
   \<and> \<not> str_in ''stackoverflow.com'' (lower (link python_docs))
   \<and> 0.9 \<le> calculate_credibility_score python_docs
   \<and> str_in ''tutorial'' (lower (link python_docs))
   \<and> 0.7 \<le> calculate_credibility_score python_docs"
proof -
  have a: "str_in ''wikipedia.org'' (lower (link python_article))" by code_simp
  have b: "str_in ''github.com'' (lower (link docs_on_github))" by code_simp
  have c: "str_in ''docs.'' (lower (link python_docs))"
    "\<not> str_in ''github.com'' (lower (link python_docs))"
    "\<not> str_in ''stackoverflow.com'' (lower (link python_docs))"
    "str_in ''tutorial'' (lower (link python_docs))" by code_simp+
  from a credibility_floors [of python_article]
  have a': "1.0 \<le> calculate_credibility_score python_article" by blast
  from b credibility_floors [of docs_on_github]
  have b': "0.8 \<le> calculate_credibility_score docs_on_github" by blast
  from c credibility_floors [of python_docs]
  have c': "0.9 \<le> calculate_credibility_score python_docs"
    "0.7 \<le> calculate_credibility_score python_docs" by blast+
  from a a' b b' c c' show ?thesis by (intro conjI)
qed

text \<open>
  The floor of 0.9 for \<open>docs.\<close> does not hold regardless of the other patterns: the
  link \<open>https://docs.github.com/en/get-started\<close> contains \<open>docs.\<close> and
  \<open>github.com\<close>, and its credibility is 0.8.
\<close>

theorem docs_floor_counterexample:
  "str_in ''docs.'' (lower (link docs_on_github))
   \<and> calculate_credibility_score docs_on_github = 0.8
   \<and> \<not> 0.9 \<le> calculate_credibility_score docs_on_github"
  by code_simp

text \<open>
  C10: when the topic has no word character, the division by the number of topic keywords
  raises \<open>ZeroDivisionError\<close> in the body of \<open>_calculate_relevance_score\<close>, the
  function returns 0.0, and \<open>evaluate\<close> scores every candidate of its list, with
  the content depth and credibility parts of the final score alone.
\<close>

theorem relevance_without_keywords:
  assumes "\<not> list_ex is_word_char topic"
  shows "relevance_body pr r topic = Inl ZeroDivisionError
       \<and> calculate_relevance_score pr r topic = 0.0
       \<and> final_score pr r topic level
           = calculate_content_depth_score r level * 0.3 + calculate_credibility_score r * 0.3
       \<and> fst (evaluate pr rs topic level)
           = map (\<lambda>c. c\<lparr>score := Some (round2 (calculate_content_depth_score c level * 0.3
                                                + calculate_credibility_score c * 0.3))\<rparr>) rs
       \<and> list_all (\<lambda>c. score c \<noteq> None) (fst (evaluate pr rs topic level))"
proof -
  have b: "relevance_body pr c topic = Inl ZeroDivisionError" for c
    by (simp add: relevance_body_def Let_def no_keywords [OF assms])
  then have z: "calculate_relevance_score pr c topic = 0" for c
    by (simp add: calculate_relevance_score_def)
  have f: "final_score pr c topic level
           = calculate_content_depth_score c level * 0.3 + calculate_credibility_score c * 0.3" for c
    by (simp add: final_score_def z)
  have e: "fst (evaluate pr rs topic level)
           = map (\<lambda>c. c\<lparr>score := Some (round2 (calculate_content_depth_score c level * 0.3
                                                + calculate_credibility_score c * 0.3))\<rparr>) rs"
    by (simp add: evaluate_fst with_score_def f)
  have s: "list_all (\<lambda>c. score c \<noteq> None) (fst (evaluate pr rs topic level))"
    using all_scored_map_with_score [of pr topic level rs] by (simp add: evaluate_fst all_scored_def)
  from b [of r] z [of r] f [of r] e s show ?thesis by simp
qed

theorem relevance_without_keywords_witness:
  "\<not> list_ex is_word_char ''?!''
   \<and> relevance_body exact_ratio python_article ''?!'' = Inl ZeroDivisionError
   \<and> calculate_relevance_score exact_ratio python_article ''?!'' = 0.0
   \<and> list_all (\<lambda>c. score c \<noteq> None)
        (fst (evaluate exact_ratio [python_article, docs_on_github] ''?!'' ''beginner''))"
proof -
  have h: "\<not> list_ex is_word_char ''?!''" by code_simp
  from relevance_without_keywords [OF h, of exact_ratio python_article "''beginner''" "[python_article, docs_on_github]"]
  show ?thesis using h by blast
qed

text \<open>
  C3, as the code has it: the threshold is 0.4, and it is compared with the final score
  before rounding. Every resource that \<open>evaluate\<close> returns is a candidate whose final
  score, before rounding, reaches the threshold, and the rounded score stored on it
  reaches the threshold too. Every candidate whose final score before rounding reaches
  the threshold is in \<open>evaluated_resources\<close>, and is returned when at most five
  candidates of its type reach the threshold; in general the returned resources of a type
  are the first five of those of \<open>evaluated_resources\<close>, in descending order of score.
\<close>

theorem evaluate_threshold:
  "(\<forall>r' \<in> set (snd (evaluate pr rs topic level)).
      \<exists>r \<in> set rs. r' = with_score pr topic level r
        \<and> min_score_threshold \<le> final_score pr r topic level
        \<and> score r' = Some (round2 (final_score pr r topic level))
        \<and> min_score_threshold \<le> round2 (final_score pr r topic level))
   \<and> (\<forall>r \<in> set rs. min_score_threshold \<le> final_score pr r topic level \<longrightarrow>
        with_score pr topic level r \<in> set (snd (evaluate_loop pr topic level rs))
        \<and> (length (filter (\<lambda>c. rtype c = rtype r \<and> passes pr topic level c) rs)
               \<le> max_results_per_category
             \<longrightarrow> with_score pr topic level r \<in> set (snd (evaluate pr rs topic level))))
   \<and> (\<forall>t. filter (\<lambda>r. rtype r = t) (snd (evaluate pr rs topic level))
            = take max_results_per_category
                (sort_desc (filter (\<lambda>r. rtype r = t) (snd (evaluate_loop pr topic level rs)))))
   \<and> min_score_threshold = 0.4"
proof (intro conjI ballI allI impI)
  fix r' assume "r' \<in> set (snd (evaluate pr rs topic level))"
  with evaluate_snd_subset have "r' \<in> set (survivors pr topic level rs)" by blast
  then obtain r where r: "r \<in> set rs" "passes pr topic level r" "r' = with_score pr topic level r"
    by (auto simp: survivors_def)
  then have "min_score_threshold \<le> final_score pr r topic level" by (simp add: passes_def)
  moreover from this have "min_score_threshold \<le> round2 (final_score pr r topic level)"
    by (rule round2_threshold)
  moreover have "score r' = Some (round2 (final_score pr r topic level))"
    using r(3) by (simp add: with_score_def)
  ultimately show "\<exists>r \<in> set rs. r' = with_score pr topic level r
        \<and> min_score_threshold \<le> final_score pr r topic level
        \<and> score r' = Some (round2 (final_score pr r topic level))
        \<and> min_score_threshold \<le> round2 (final_score pr r topic level)"
    using r(1,3) by blast
next
  fix r assume r: "r \<in> set rs" "min_score_threshold \<le> final_score pr r topic level"
  then show "with_score pr topic level r \<in> set (snd (evaluate_loop pr topic level rs))"
    by (simp add: evaluate_loop_snd passes_def)
next
  fix r assume r: "r \<in> set rs" "min_score_threshold \<le> final_score pr r topic level"
    and n: "length (filter (\<lambda>c. rtype c = rtype r \<and> passes pr topic level c) rs)
               \<le> max_results_per_category"
  let ?X = "filter (\<lambda>c. rtype c = rtype r) (survivors pr topic level rs)"
  have "length ?X \<le> max_results_per_category"
    using n by (simp add: filter_type_survivors)
  then have "take max_results_per_category (sort_desc ?X) = sort_desc ?X"
    by (simp add: sort_desc_def)
  then have "filter (\<lambda>c. rtype c = rtype r) (snd (evaluate pr rs topic level)) = sort_desc ?X"
    by (simp add: evaluate_category)
  moreover have "with_score pr topic level r \<in> set (sort_desc ?X)"
    using r by (simp add: filter_type_survivors passes_def)
  ultimately have "with_score pr topic level r
      \<in> set (filter (\<lambda>c. rtype c = rtype r) (snd (evaluate pr rs topic level)))"
    by simp
  then show "with_score pr topic level r \<in> set (snd (evaluate pr rs topic level))"
    by simp
next
  fix t
  show "filter (\<lambda>r. rtype r = t) (snd (evaluate pr rs topic level))
            = take max_results_per_category
                (sort_desc (filter (\<lambda>r. rtype r = t) (snd (evaluate_loop pr topic level rs))))"
    by (simp add: evaluate_category evaluate_loop_survivors)
next
  show "min_score_threshold = 0.4" by (simp add: min_score_threshold_def)
qed

theorem evaluate_threshold_witness:
  "python_article \<in> set [python_article]
   \<and> min_score_threshold \<le> final_score exact_ratio python_article ''Python Programming'' ''beginner''
   \<and> length (filter (\<lambda>c. rtype c = rtype python_article
                        \<and> passes exact_ratio ''Python Programming'' ''beginner'' c) [python_article])
        \<le> max_results_per_category
   \<and> with_score exact_ratio ''Python Programming'' ''beginner'' python_article
        \<in> set (snd (evaluate exact_ratio [python_article] ''Python Programming'' ''beginner''))"
proof -
  have a: "python_article \<in> set [python_article]" by simp
  have b: "min_score_threshold
           \<le> final_score exact_ratio python_article ''Python Programming'' ''beginner''"
    by code_simp
  have c: "length (filter (\<lambda>c. rtype c = rtype python_article
                        \<and> passes exact_ratio ''Python Programming'' ''beginner'' c) [python_article])
        \<le> max_results_per_category"
    by code_simp
  from evaluate_threshold [of exact_ratio "[python_article]" "''Python Programming''" "''beginner''"]
  have "\<forall>r \<in> set [python_article].
        min_score_threshold \<le> final_score exact_ratio r ''Python Programming'' ''beginner'' \<longrightarrow>
        with_score exact_ratio ''Python Programming'' ''beginner'' r
          \<in> set (snd (evaluate_loop exact_ratio ''Python Programming'' ''beginner'' [python_article]))
        \<and> (length (filter (\<lambda>c. rtype c = rtype r
               \<and> passes exact_ratio ''Python Programming'' ''beginner'' c) [python_article])
               \<le> max_results_per_category
             \<longrightarrow> with_score exact_ratio ''Python Programming'' ''beginner'' r
                   \<in> set (snd (evaluate exact_ratio [python_article] ''Python Programming'' ''beginner'')))"
    by (elim conjE)
  with a b c have "with_score exact_ratio ''Python Programming'' ''beginner'' python_article
        \<in> set (snd (evaluate exact_ratio [python_article] ''Python Programming'' ''beginner''))"
    by blast
  with a b c show ?thesis by (intro conjI)
qed

text \<open>
  A candidate whose rounded final score is at the threshold is not always retained: the
  final score of \<open>borderline_video\<close> is 0.3975 for a topic without keywords, the score
  stored on it is 0.4, and \<open>evaluate\<close> returns nothing, though no cap applies to a
  single candidate.
\<close>

theorem rounded_threshold_counterexample:
  "final_score exact_ratio borderline_video [] ''intermediate'' = 0.3975
   \<and> fst (evaluate exact_ratio [borderline_video] [] ''intermediate'')
       = [borderline_video\<lparr>score := Some 0.4\<rparr>]
   \<and> min_score_threshold \<le> 0.4
   \<and> snd (evaluate exact_ratio [borderline_video] [] ''intermediate'') = []"
  by code_simp

text \<open>
  C4: for every type, the list that \<open>evaluate\<close> returns has at most
  \<open>max_results_per_category\<close> = 5 resources of that type.
\<close>

theorem category_cap:
  "length (filter (\<lambda>r. rtype r = t) (snd (evaluate pr rs topic level))) \<le> max_results_per_category
   \<and> max_results_per_category = 5"
  by (simp add: evaluate_category) (simp add: max_results_per_category_def)

theorem category_cap_witness:
  "length (filter (\<lambda>r. rtype r = ''article'')
       (snd (evaluate exact_ratio (replicate 6 python_article) ''Python Programming'' ''beginner'')))
     \<le> max_results_per_category
   \<and> length (snd (evaluate exact_ratio (replicate 6 python_article) ''Python Programming'' ''beginner'')) = 5"
proof -
  have "length (snd (evaluate exact_ratio (replicate 6 python_article) ''Python Programming'' ''beginner'')) = 5"
    by code_simp
  with category_cap [of "''article''" exact_ratio "replicate 6 python_article" "''Python Programming''" "''beginner''"]
  show ?thesis by blast
qed

text \<open>
  C5, as the code has it: the list that \<open>evaluate\<close> returns is in descending order
  of the stored score, and returned resources with the same score and the same type are
  in the order in which \<open>evaluated_resources\<close> has them, which is the order of the
  input list.
\<close>

theorem evaluate_order:
  "(\<forall>i j. i < j \<and> j < length (snd (evaluate pr rs topic level)) \<longrightarrow>
        skey (snd (evaluate pr rs topic level) ! j) \<le> skey (snd (evaluate pr rs topic level) ! i))
   \<and> (\<forall>t s. prefix (filter (\<lambda>r. rtype r = t \<and> score r = Some s) (snd (evaluate pr rs topic level)))
                   (filter (\<lambda>r. rtype r = t \<and> score r = Some s) (snd (evaluate_loop pr topic level rs))))
   \<and> subseq (snd (evaluate_loop pr topic level rs)) (fst (evaluate pr rs topic level))"
proof (intro conjI allI impI)
  fix i j assume "i < j \<and> j < length (snd (evaluate pr rs topic level))"
  then show "skey (snd (evaluate pr rs topic level) ! j) \<le> skey (snd (evaluate pr rs topic level) ! i)"
    using descending_nth [OF descending_evaluate] by blast
next
  fix t s
  let ?S = "survivors pr topic level rs"
  let ?X = "filter (\<lambda>r. rtype r = t) ?S"
  have x: "all_scored ?X"
    using all_scored_survivors [of pr topic level rs] by (rule all_scored_subset) simp
  have "filter (\<lambda>r. rtype r = t \<and> score r = Some s) (snd (evaluate pr rs topic level))
        = filter (\<lambda>r. score r = Some s) (filter (\<lambda>r. rtype r = t) (snd (evaluate pr rs topic level)))"
    by (simp add: conj_commute)
  also have "\<dots> = filter (\<lambda>r. score r = Some s) (take max_results_per_category (sort_desc ?X))"
    by (simp only: evaluate_category)
  finally have "prefix (filter (\<lambda>r. rtype r = t \<and> score r = Some s) (snd (evaluate pr rs topic level)))
                       (filter (\<lambda>r. score r = Some s) (sort_desc ?X))"
    by (simp add: filter_mono_prefix take_is_prefix)
  also have "filter (\<lambda>r. score r = Some s) (sort_desc ?X) = filter (\<lambda>r. score r = Some s) ?X"
    using x by (rule filter_score_sort_desc)
  also have "\<dots> = filter (\<lambda>r. rtype r = t \<and> score r = Some s) ?S"
    by (simp add: conj_commute)
  finally show "prefix (filter (\<lambda>r. rtype r = t \<and> score r = Some s) (snd (evaluate pr rs topic level)))
                   (filter (\<lambda>r. rtype r = t \<and> score r = Some s) (snd (evaluate_loop pr topic level rs)))"
    by (simp only: evaluate_loop_survivors)
next
  have "subseq (map (with_score pr topic level) (filter (passes pr topic level) rs))
               (map (with_score pr topic level) rs)"
    by (rule subseq_map) simp
  then show "subseq (snd (evaluate_loop pr topic level rs)) (fst (evaluate pr rs topic level))"
    by (simp add: evaluate_loop_snd evaluate_fst)
qed

theorem evaluate_order_witness:
  "(0::nat) < 1
   \<and> 1 < length (snd (evaluate exact_ratio [first_article, a_video, second_article] [] ''beginner''))
   \<and> skey (snd (evaluate exact_ratio [first_article, a_video, second_article] [] ''beginner'') ! 1)
       \<le> skey (snd (evaluate exact_ratio [first_article, a_video, second_article] [] ''beginner'') ! 0)
   \<and> prefix (filter (\<lambda>r. rtype r = ''article'' \<and> score r = Some 0.42)
               (snd (evaluate exact_ratio [first_article, a_video, second_article] [] ''beginner'')))
            (filter (\<lambda>r. rtype r = ''article'' \<and> score r = Some 0.42)
               (snd (evaluate_loop exact_ratio [] ''beginner'' [first_article, a_video, second_article])))
   \<and> filter (\<lambda>r. rtype r = ''article'' \<and> score r = Some 0.42)
        (snd (evaluate exact_ratio [first_article, a_video, second_article] [] ''beginner''))
       = [first_article\<lparr>score := Some 0.42\<rparr>, second_article\<lparr>score := Some 0.42\<rparr>]"
proof -
  have a: "(0::nat) < 1" by simp
  have b: "1 < length (snd (evaluate exact_ratio [first_article, a_video, second_article] [] ''beginner''))"
    by code_simp
  have c: "filter (\<lambda>r. rtype r = ''article'' \<and> score r = Some 0.42)
        (snd (evaluate exact_ratio [first_article, a_video, second_article] [] ''beginner''))
       = [first_article\<lparr>score := Some 0.42\<rparr>, second_article\<lparr>score := Some 0.42\<rparr>]"
    by code_simp
  note t = evaluate_order [of exact_ratio "[first_article, a_video, second_article]" "[]" "''beginner''"]
  from t a b have d: "skey (snd (evaluate exact_ratio [first_article, a_video, second_article] [] ''beginner'') ! 1)
       \<le> skey (snd (evaluate exact_ratio [first_article, a_video, second_article] [] ''beginner'') ! 0)"
    by blast
  from t have e: "prefix (filter (\<lambda>r. rtype r = ''article'' \<and> score r = Some 0.42)
               (snd (evaluate exact_ratio [first_article, a_video, second_article] [] ''beginner'')))
            (filter (\<lambda>r. rtype r = ''article'' \<and> score r = Some 0.42)
               (snd (evaluate_loop exact_ratio [] ''beginner'' [first_article, a_video, second_article])))"
    by blast
  from a b c d e show ?thesis by (intro conjI)
qed

text \<open>
  Resources with the same score and different types do not keep the order of the input:
  of an article, a video and a second article that all score 0.42, the second article is
  returned before the video. The topic has no keyword, so the relevance is 0.0 whatever
  the similarity ratio is.
\<close>

theorem tie_order_counterexample:
  "fst (evaluate exact_ratio [first_article, a_video, second_article] [] ''beginner'')
     = [first_article\<lparr>score := Some 0.42\<rparr>, a_video\<lparr>score := Some 0.42\<rparr>,
        second_article\<lparr>score := Some 0.42\<rparr>]
   \<and> snd (evaluate exact_ratio [first_article, a_video, second_article] [] ''beginner'')
     = [first_article\<lparr>score := Some 0.42\<rparr>, second_article\<lparr>score := Some 0.42\<rparr>,
        a_video\<lparr>score := Some 0.42\<rparr>]"
  by code_simp

text \<open>
  C9, as the code has it: \<open>evaluate\<close> leaves the type, title, link, raw text and
  source of every input dictionary as they were and writes the key \<open>score\<close> into it;
  the resources it returns are among these dictionaries.
\<close>

theorem evaluate_frame:
  "fst (evaluate pr rs topic level)
     = map (\<lambda>r. r\<lparr>score := Some (round2 (final_score pr r topic level))\<rparr>) rs
   \<and> map rtype (fst (evaluate pr rs topic level)) = map rtype rs
   \<and> map title (fst (evaluate pr rs topic level)) = map title rs
   \<and> map link (fst (evaluate pr rs topic level)) = map link rs
   \<and> map raw_text (fst (evaluate pr rs topic level)) = map raw_text rs
   \<and> map source (fst (evaluate pr rs topic level)) = map source rs
   \<and> set (snd (evaluate pr rs topic level)) \<subseteq> set (fst (evaluate pr rs topic level))"
proof -
  have "set (survivors pr topic level rs) \<subseteq> set (fst (evaluate pr rs topic level))"
    by (auto simp: survivors_def evaluate_fst)
  with evaluate_snd_subset [of pr rs topic level]
  have "set (snd (evaluate pr rs topic level)) \<subseteq> set (fst (evaluate pr rs topic level))"
    by (rule subset_trans)
  moreover have "fst (evaluate pr rs topic level)
     = map (\<lambda>r. r\<lparr>score := Some (round2 (final_score pr r topic level))\<rparr>) rs"
    by (simp add: evaluate_fst with_score_def)
  ultimately show ?thesis by (simp add: comp_def)
qed

theorem evaluate_frame_witness:
  "fst (evaluate exact_ratio [python_article] ''Python Programming'' ''beginner'')
     = [python_article\<lparr>score := Some 0.62\<rparr>]
   \<and> map link (fst (evaluate exact_ratio [python_article] ''Python Programming'' ''beginner''))
     = map link [python_article]"
proof -
  have "round2 (final_score exact_ratio python_article ''Python Programming'' ''beginner'') = 0.62"
    by code_simp
  with evaluate_frame [of exact_ratio "[python_article]" "''Python Programming''" "''beginner''"]
  show ?thesis by simp
qed

text \<open>
  The input dictionary as a whole is not what it was: \<open>python_article\<close> has no score
  before \<open>evaluate\<close> and has one after it.
\<close>

theorem evaluate_mutates_counterexample:
  "fst (evaluate exact_ratio [python_article] ''Python Programming'' ''beginner'')
     \<noteq> [python_article]"
  by code_simp

section \<open>Properties of the endpoint\<close>

text \<open>
  C1, as the code has it: each agent returns every link it found once, with the first
  resource found for it, in the order found; the endpoint appends the lists of the agents
  in the order of registration and removes nothing, so the list passed to the evaluation
  agent has a link as many times as there are agents that found it.
\<close>

theorem merged_links:
  assumes "lower (req_level request) \<in> set valid_levels"
  shows "all_resources (scrape_resources pr (map scrape searches) request)
           = concat (map (\<lambda>s. unique_resources (successes s)) searches)
       \<and> (\<forall>found l. distinct (map link (unique_resources found))
             \<and> find (\<lambda>r. link r = l) (unique_resources found) = find (\<lambda>r. link r = l) found
             \<and> subseq (unique_resources found) found)
       \<and> (\<forall>l. length (filter (\<lambda>r. link r = l)
                    (all_resources (scrape_resources pr (map scrape searches) request)))
              = length (filter (\<lambda>s. l \<in> link ` set (successes s)) searches))"
proof -
  have a: "all_resources (scrape_resources pr (map scrape searches) request)
           = concat (map (\<lambda>s. unique_resources (successes s)) searches)"
    by (simp add: scrape_resources_valid [OF assms all_handled_scrape] gathered_def comp_def
        successes_scrape)
  have b: "distinct (map link (unique_resources found))
             \<and> find (\<lambda>r. link r = l) (unique_resources found) = find (\<lambda>r. link r = l) found
             \<and> subseq (unique_resources found) found" for found l
    by (simp add: unique_resources_def unique_from_distinct unique_from_find unique_from_subseq)
  have c: "length (filter (\<lambda>r. link r = l)
                    (all_resources (scrape_resources pr (map scrape searches) request)))
              = length (filter (\<lambda>s. l \<in> link ` set (successes s)) searches)" for l
    unfolding a by (rule count_concat_unique)
  from a b c show ?thesis by blast
qed

theorem merged_links_witness:
  "lower (req_level beginner_python) \<in> set valid_levels
   \<and> all_resources (scrape_resources exact_ratio
        (map scrape [Inr [python_article, python_article], Inr [python_article_as_docs]]) beginner_python)
       = concat (map (\<lambda>s. unique_resources (successes s))
           [Inr [python_article, python_article], Inr [python_article_as_docs] :: exn + resource list])
   \<and> unique_resources [python_article, python_article] = [python_article]"
proof -
  have h: "lower (req_level beginner_python) \<in> set valid_levels" by code_simp
  have u: "unique_resources [python_article, python_article] = [python_article]" by code_simp
  from merged_links [OF h, of exact_ratio "[Inr [python_article, python_article], Inr [python_article_as_docs]]"]
  show ?thesis using h u by blast
qed

text \<open>
  The same link returned by the articles agent and by the documentation agent is twice in
  the list passed to the evaluation agent.
\<close>

theorem merged_links_counterexample:
  "all_resources (scrape_resources exact_ratio both_find_python beginner_python)
     = [python_article, python_article_as_docs]
   \<and> link python_article = link python_article_as_docs"
  by code_simp

text \<open>
  C2, as the code has it: for a request with a valid level, when every agent task ends
  with a list or with an exception of class \<open>Exception\<close>, the endpoint starts every
  agent, logs the agents that failed, collects the resources of all the others, evaluates
  them and answers with a response and not with an error; when every agent fails so, the
  response has the empty list of resources.
\<close>

theorem failed_agents_isolated:
  assumes "lower (req_level request) \<in> set valid_levels"
    and "all_handled (gathered agents request)"
  shows "started (scrape_resources pr agents request) = length agents
       \<and> failed_agents (scrape_resources pr agents request)
           = map fst (filter (\<lambda>p. isl (snd p)) (enumerate 0 (gathered agents request)))
       \<and> all_resources (scrape_resources pr agents request)
           = concat (map successes (gathered agents request))
       \<and> outcome (scrape_resources pr agents request)
           = Inr (response_for request
               (map api_of (snd (evaluate pr (concat (map successes (gathered agents request)))
                                  (req_topic request) (req_level request)))))
       \<and> (list_all isl (gathered agents request)
            \<longrightarrow> outcome (scrape_resources pr agents request) = Inr (response_for request []))"
proof -
  have "outcome (scrape_resources pr agents request) = Inr (response_for request [])"
    if "list_all isl (gathered agents request)"
    by (simp only: scrape_resources_valid [OF assms] concat_failures [OF that] evaluate_nothing)
      simp
  then show ?thesis by (simp add: scrape_resources_valid [OF assms])
qed

theorem failed_agents_isolated_witness:
  "lower (req_level beginner_python) \<in> set valid_levels
   \<and> all_handled (gathered two_agents_raise beginner_python)
   \<and> failed_agents (scrape_resources exact_ratio two_agents_raise beginner_python) = [0, 2]
   \<and> outcome (scrape_resources exact_ratio two_agents_raise beginner_python)
       = Inr (response_for beginner_python
           [\<lparr>res_type = ''article'', res_title = ''Python Programming for Beginners'',
             res_link = ''https://en.wikipedia.org/wiki/Python_(programming_language)'',
             res_score = 0.62\<rparr>])
   \<and> all_handled (gathered all_agents_raise beginner_python)
   \<and> list_all isl (gathered all_agents_raise beginner_python)
   \<and> outcome (scrape_resources exact_ratio all_agents_raise beginner_python)
       = Inr (response_for beginner_python [])"
proof -
  have h: "lower (req_level beginner_python) \<in> set valid_levels" by code_simp
  have h2: "all_handled (gathered two_agents_raise beginner_python)" by code_simp
  have h3: "all_handled (gathered all_agents_raise beginner_python)" by code_simp
  have a: "map fst (filter (\<lambda>p. isl (snd p)) (enumerate 0 (gathered two_agents_raise beginner_python)))
           = [0, 2]"
    by code_simp
  have b: "map api_of (snd (evaluate exact_ratio
              (concat (map successes (gathered two_agents_raise beginner_python)))
              (req_topic beginner_python) (req_level beginner_python)))
           = [\<lparr>res_type = ''article'', res_title = ''Python Programming for Beginners'',
               res_link = ''https://en.wikipedia.org/wiki/Python_(programming_language)'',
               res_score = 0.62\<rparr>]"
    by code_simp
  have c: "list_all isl (gathered all_agents_raise beginner_python)" by code_simp
  note t = failed_agents_isolated [OF h h2, of exact_ratio]
  note u = failed_agents_isolated [OF h h3, of exact_ratio]
  from t a have t1: "failed_agents (scrape_resources exact_ratio two_agents_raise beginner_python) = [0, 2]"
    by simp
  from t b have t2: "outcome (scrape_resources exact_ratio two_agents_raise beginner_python)
       = Inr (response_for beginner_python
           [\<lparr>res_type = ''article'', res_title = ''Python Programming for Beginners'',
             res_link = ''https://en.wikipedia.org/wiki/Python_(programming_language)'',
             res_score = 0.62\<rparr>])"
    by simp
  from u c have u1: "outcome (scrape_resources exact_ratio all_agents_raise beginner_python)
       = Inr (response_for beginner_python [])"
    by blast
  from h h2 t1 t2 h3 c u1 show ?thesis by (intro conjI)
qed

text \<open>
  A task that is cancelled ends with \<open>CancelledError\<close>, which is not an instance of
  \<open>Exception\<close>: the endpoint does not skip it, \<open>all_resources.extend\<close> raises
  \<open>TypeError\<close>, and the request is answered with status 500, though the second agent
  found a resource.
\<close>

theorem cancelled_agent_counterexample:
  "lower (req_level beginner_python) \<in> set valid_levels
   \<and> gathered first_agent_cancelled beginner_python
       = [Inl CancelledError, Inr [python_article], Inr [], Inr [], Inr []]
   \<and> started (scrape_resources exact_ratio first_agent_cancelled beginner_python) = 5
   \<and> outcome (scrape_body exact_ratio first_agent_cancelled beginner_python) = Inl TypeError
   \<and> outcome (scrape_resources exact_ratio first_agent_cancelled beginner_python)
       = Inl (HTTPException 500)"
  by code_simp

text \<open>
  C7, as the code has it: a request whose level, in lower case, is none of
  \<open>beginner\<close>, \<open>intermediate\<close>, \<open>advanced\<close> ends with an exception before any
  agent task is started and before anything is evaluated; a request with a valid level
  starts every agent, whatever its topic is, and is answered when every agent task ends
  with a list or with an exception of class \<open>Exception\<close>.
\<close>

theorem level_validation:
  "(lower (req_level request) \<notin> set valid_levels \<longrightarrow>
      started (scrape_resources pr agents request) = 0
      \<and> all_resources (scrape_resources pr agents request) = []
      \<and> isl (outcome (scrape_resources pr agents request)))
   \<and> (lower (req_level request) \<in> set valid_levels \<longrightarrow>
      started (scrape_resources pr agents request) = length agents
      \<and> (all_handled (gathered agents request)
           \<longrightarrow> \<not> isl (outcome (scrape_resources pr agents request))))"
proof (intro conjI impI)
  assume "lower (req_level request) \<notin> set valid_levels"
  then show "started (scrape_resources pr agents request) = 0"
    "all_resources (scrape_resources pr agents request) = []"
    "isl (outcome (scrape_resources pr agents request))"
    by (simp_all add: scrape_resources_invalid)
next
  assume v: "lower (req_level request) \<in> set valid_levels"
  show "started (scrape_resources pr agents request) = length agents"
  proof (cases "all_handled (gathered agents request)")
    case True
    with v show ?thesis by (simp add: scrape_resources_valid)
  next
    case False
    with v show ?thesis by (simp add: scrape_resources_not_handled)
  qed
next
  assume "lower (req_level request) \<in> set valid_levels"
    and "all_handled (gathered agents request)"
  then show "\<not> isl (outcome (scrape_resources pr agents request))"
    by (simp add: scrape_resources_valid)
qed

theorem level_validation_witness:
  "lower (req_level expert_python) \<notin> set valid_levels
   \<and> started (scrape_resources exact_ratio nothing_found expert_python) = 0
   \<and> isl (outcome (scrape_resources exact_ratio nothing_found expert_python))
   \<and> lower (req_level beginner_python) \<in> set valid_levels
   \<and> started (scrape_resources exact_ratio nothing_found beginner_python) = length nothing_found
   \<and> all_handled (gathered nothing_found beginner_python)
   \<and> \<not> isl (outcome (scrape_resources exact_ratio nothing_found beginner_python))"
proof -
  have a: "lower (req_level expert_python) \<notin> set valid_levels" by code_simp
  have b: "lower (req_level beginner_python) \<in> set valid_levels" by code_simp
  have c: "all_handled (gathered nothing_found beginner_python)" by code_simp
  from level_validation [of expert_python exact_ratio nothing_found]
    level_validation [of beginner_python exact_ratio nothing_found]
  show ?thesis using a b c by blast
qed

text \<open>
  A request with the empty topic and a valid level is not rejected: the five agents are
  started and the request is answered.
\<close>

theorem empty_topic_counterexample:
  "req_topic empty_topic = []
   \<and> started (scrape_resources exact_ratio nothing_found empty_topic) = 5
   \<and> outcome (scrape_resources exact_ratio nothing_found empty_topic)
       = Inr \<lparr>content = ''Learning resources for  at beginner level'', resources = []\<rparr>"
  by code_simp

end
